theory Spec2Isabelle
  imports Complex_Main "HOL-Library.DAList"
begin

section \<open>Values, documents and the ride-request collection\<close>

text \<open>
  The three handlers of the driver service (server.js, held as src/unnamed/part_000) and
  the rider's \<open>handleRequestRide\<close> (src/_app.js and the older src/app.js) all work on one
  Firestore collection, \<open>artifacts/<appId>/public/data/rideRequests\<close>, keyed by the
  rider's user id. A document is a JavaScript object: a finite set of named fields whose
  values are JSON values or timestamps. Request bodies are objects of the same kind.
\<close>

datatype jsval =
    Null
  | Bool bool
  | Num real
  | Str string
  | Time nat
  | Arr "jsval list"
  | Obj "(string \<times> jsval) list"

type_synonym fields = "string \<rightharpoonup> jsval"

text \<open>
  JavaScript truthiness of a possibly missing property (\<open>None\<close> is \<open>undefined\<close>): the
  test behind \<open>!driverId\<close> and \<open>userProfile?.email || 'N/A'\<close>.
\<close>

fun truthy :: "jsval option \<Rightarrow> bool" where
  "truthy None = False"
| "truthy (Some Null) = False"
| "truthy (Some (Bool b)) = b"
| "truthy (Some (Num x)) = (x \<noteq> 0)"
| "truthy (Some (Str s)) = (s \<noteq> [])"
| "truthy (Some (Time t)) = True"
| "truthy (Some (Arr xs)) = True"
| "truthy (Some (Obj kvs)) = True"

subsection \<open>Document references\<close>

text \<open>
  Both handlers on the service side build their reference with
  \<open>db.collection(...).doc(rideRequestId)\<close>, and the client with
  \<open>doc(db, 'artifacts/<appId>/public/data/rideRequests', userId)\<close>. In both SDKs the
  argument is a slash-separated path below the collection: it is split at the slashes,
  empty segments (a leading or trailing slash) are dropped, and the call throws when the
  argument is empty, when it contains two slashes in a row, or when the segments do not
  end at a document. The collection path has five segments, so the argument ends at a
  document exactly when it has an odd number of segments: one segment is a document of
  the collection itself, three or more are a document of a subcollection below it.
  A document is identified by its segments below the collection. The texts of the error
  messages are the SDK's and are abbreviated here.
\<close>

datatype store_error = StoreError (message: string)

text \<open>JavaScript's \<open>path.split('/')\<close>.\<close>

fun split_slash :: "string \<Rightarrow> string list" where
  "split_slash [] = [[]]"
| "split_slash (c # cs) =
     (if c = CHR ''/'' then [] # split_slash cs
      else (case split_slash cs of
              [] \<Rightarrow> [[c]]
            | seg # segs \<Rightarrow> (c # seg) # segs))"

definition segments :: "string \<Rightarrow> string list" where
  "segments path = filter (\<lambda>segment. segment \<noteq> []) (split_slash path)"

text \<open>\<open>path.indexOf('//') >= 0\<close>\<close>

fun double_slash :: "string \<Rightarrow> bool" where
  "double_slash (a # b # cs) = ((a = CHR ''/'' \<and> b = CHR ''/'') \<or> double_slash (b # cs))"
| "double_slash [a] = False"
| "double_slash [] = False"

definition doc :: "string \<Rightarrow> store_error + string list" where
  "doc documentPath =
     (if documentPath = [] then Inl (StoreError ''Path must be a non-empty string.'')
      else if double_slash documentPath then Inl (StoreError ''Paths must not contain //.'')
      else if even (length (segments documentPath))
      then Inl (StoreError ''Your path does not contain an even number of components.'')
      else Inr (segments documentPath))"

subsection \<open>The store\<close>

text \<open>
  The store holds at most one document per reference. It is modelled as an association
  list with distinct keys, so that a query can enumerate it. The store is taken to be
  reachable and responsive: no call fails for a reason outside its arguments. What
  remains is decided by the arguments. Firestore rejects operations on some document
  paths (reserved names, over-long ids); which ones is not code of this repository and
  is taken as the parameter \<open>accepts\<close>, the same for every operation. A read, an update
  or a write of a reference that the store does not accept throws; an update also throws
  when there is no document under the reference (Firestore's NOT_FOUND). A query on the
  collection returns the documents of the collection itself, not those of the
  subcollections below it.
\<close>

type_synonym store = "(string list, fields) alist"

definition ref_get ::
  "(string list \<Rightarrow> bool) \<Rightarrow> store \<Rightarrow> string list \<Rightarrow> store_error + fields option" where
  "ref_get accepts s ref =
     (if accepts ref then Inr (DAList.lookup s ref) else Inl (StoreError ''INVALID_ARGUMENT''))"

definition ref_update ::
  "(string list \<Rightarrow> bool) \<Rightarrow> store \<Rightarrow> string list \<Rightarrow> fields \<Rightarrow> store_error + store" where
  "ref_update accepts s ref fs =
     (if \<not> accepts ref then Inl (StoreError ''INVALID_ARGUMENT'')
      else case DAList.lookup s ref of
             None \<Rightarrow> Inl (StoreError ''NOT_FOUND'')
           | Some d \<Rightarrow> Inr (DAList.update ref (d ++ fs) s))"

definition setDoc ::
  "(string list \<Rightarrow> bool) \<Rightarrow> store \<Rightarrow> string list \<Rightarrow> fields \<Rightarrow> store_error + store" where
  "setDoc accepts s ref d =
     (if accepts ref then Inr (DAList.update ref d s) else Inl (StoreError ''INVALID_ARGUMENT''))"


section \<open>The driver service (src/unnamed/part_000)\<close>

datatype body = JArray "fields list" | JObject fields

datatype response = Response (code: nat) (json: body)


text \<open>
  \<open>POST /api/ride-requests/:id/accept\<close>, lines 77 to 108. The handler awaits the store
  twice, so it runs in two steps: \<open>acceptRide_check\<close> is lines 78 to 91 (the validation
  of the body, the building of the reference, the read of the document and the test of
  \<open>doc.exists\<close>) and yields either the response with which the handler returns early or
  the reference; \<open>acceptRide_write\<close> is lines 93 to 107 (the update and its \<open>catch\<close>).
  \<open>acceptRide\<close> is one call running alone. \<open>accept_failed\<close> is the answer of the
  \<open>catch\<close>, lines 104 to 107.
\<close>

definition accept_update :: "fields \<Rightarrow> nat \<Rightarrow> fields" where
  "accept_update reqBody now =
     (Map.empty
       (''status'' \<mapsto> Str ''accepted'',
        ''driverId'' := reqBody ''driverId'',
        ''driverName'' := reqBody ''driverName'',
        ''driverVehicle'' := reqBody ''driverVehicle'',
        ''acceptedAt'' \<mapsto> Time now))"

definition accept_failed :: "store_error \<Rightarrow> response" where
  "accept_failed e =
     Response 500
       (JObject [''error'' \<mapsto> Str ''Failed to accept ride request'',
                 ''details'' \<mapsto> Str (message e)])"

definition acceptRide_check ::
  "(string list \<Rightarrow> bool) \<Rightarrow> store \<Rightarrow> string \<Rightarrow> fields \<Rightarrow> response + string list" where
  "acceptRide_check accepts s rideRequestId reqBody =
     (if \<not> truthy (reqBody ''driverId'') \<or> \<not> truthy (reqBody ''driverName'')
         \<or> \<not> truthy (reqBody ''driverVehicle'')
      then Inl (Response 400
             (JObject [''error'' \<mapsto> Str ''Driver ID, name, and vehicle are required.'']))
      else case doc rideRequestId of
             Inl e \<Rightarrow> Inl (accept_failed e)
           | Inr rideRequestRef \<Rightarrow>
               (case ref_get accepts s rideRequestRef of
                  Inl e \<Rightarrow> Inl (accept_failed e)
                | Inr None \<Rightarrow>
                    Inl (Response 404 (JObject [''error'' \<mapsto> Str ''Ride request not found.'']))
                | Inr (Some d) \<Rightarrow> Inr rideRequestRef))"

definition acceptRide_write ::
  "(string list \<Rightarrow> bool) \<Rightarrow> store \<Rightarrow> string list \<Rightarrow> string \<Rightarrow> fields \<Rightarrow> nat
     \<Rightarrow> response \<times> store" where
  "acceptRide_write accepts s rideRequestRef rideRequestId reqBody now =
     (case ref_update accepts s rideRequestRef (accept_update reqBody now) of
        Inl e \<Rightarrow> (accept_failed e, s)
      | Inr s' \<Rightarrow>
          (Response 200
             (JObject [''message'' \<mapsto> Str ''Ride request accepted successfully.'',
                       ''rideRequestId'' \<mapsto> Str rideRequestId]), s'))"

definition acceptRide ::
  "(string list \<Rightarrow> bool) \<Rightarrow> store \<Rightarrow> string \<Rightarrow> fields \<Rightarrow> nat \<Rightarrow> response \<times> store" where
  "acceptRide accepts s rideRequestId reqBody now =
     (case acceptRide_check accepts s rideRequestId reqBody of
        Inl r \<Rightarrow> (r, s)
      | Inr rideRequestRef \<Rightarrow>
          acceptRide_write accepts s rideRequestRef rideRequestId reqBody now)"

text \<open>
  \<open>POST /api/ride-requests/:id/complete\<close>, lines 112 to 135; \<open>complete_failed\<close> is the
  answer of its \<open>catch\<close>.
\<close>

definition complete_failed :: "store_error \<Rightarrow> response" where
  "complete_failed e =
     Response 500
       (JObject [''error'' \<mapsto> Str ''Failed to complete ride request'',
                 ''details'' \<mapsto> Str (message e)])"

definition completeRide ::
  "(string list \<Rightarrow> bool) \<Rightarrow> store \<Rightarrow> string \<Rightarrow> nat \<Rightarrow> response \<times> store" where
  "completeRide accepts s rideRequestId now =
     (case doc rideRequestId of
        Inl e \<Rightarrow> (complete_failed e, s)
      | Inr rideRequestRef \<Rightarrow>
          (case ref_get accepts s rideRequestRef of
             Inl e \<Rightarrow> (complete_failed e, s)
           | Inr None \<Rightarrow>
               (Response 404 (JObject [''error'' \<mapsto> Str ''Ride request not found.'']), s)
           | Inr (Some d) \<Rightarrow>
               (case ref_update accepts s rideRequestRef
                       [''status'' \<mapsto> Str ''completed'', ''completedAt'' \<mapsto> Time now] of
                  Inl e \<Rightarrow> (complete_failed e, s)
                | Inr s' \<Rightarrow>
                    (Response 200
                       (JObject [''message'' \<mapsto> Str ''Ride request completed successfully.'',
                                 ''rideRequestId'' \<mapsto> Str rideRequestId]), s'))))"

section \<open>The rider's client (src/_app.js and src/app.js)\<close>

text \<open>
  \<open>handleRequestRide\<close> of the Dashboard component. The client writes to the collection
  of the same path as the service reads (the service's APP_ID is the client's default
  \<open>__app_id\<close>). Its inputs are what the closure reads: whether the Firestore handle
  \<open>db\<close> is set, the signed-in \<open>userId\<close> (\<open>None\<close> is \<open>null\<close>), the loaded profile,
  what \<open>navigator.geolocation\<close> answers (\<open>None\<close> when the browser has no geolocation;
  otherwise the one callback that \<open>getCurrentPosition\<close> invokes), and the clock of
  \<open>new Date()\<close>. The rendering of a number inside the template literal of
  \<open>pickupLocation\<close> is JavaScript's own and is taken as the parameter \<open>numstr\<close>.
  Besides the store, the handler returns the notifications it sets, oldest first.
\<close>

datatype geo_result = Position real real | PositionError nat

record snackbar =
  snackbarMessage :: string
  snackbarSeverity :: string
  openSnackbar :: bool

definition notify :: "string \<Rightarrow> string \<Rightarrow> snackbar" where
  "notify msg sev = \<lparr>snackbarMessage = msg, snackbarSeverity = sev, openSnackbar = True\<rparr>"

text \<open>The codes of GeolocationPositionError: 1, 2 and 3.\<close>

definition PERMISSION_DENIED :: nat where "PERMISSION_DENIED = 1"
definition POSITION_UNAVAILABLE :: nat where "POSITION_UNAVAILABLE = 2"
definition TIMEOUT :: nat where "TIMEOUT = 3"

definition geo_errorMessage :: "nat \<Rightarrow> string" where
  "geo_errorMessage c =
     (if c = PERMISSION_DENIED
      then ''Location access denied. Please enable location services for this app.''
      else if c = POSITION_UNAVAILABLE then ''Location information is unavailable.''
      else if c = TIMEOUT then ''The request to get user location timed out.''
      else ''Unable to retrieve your location.'')"

text \<open>\<open>userProfile?.email || 'N/A'\<close>\<close>

definition riderEmail_of :: "fields option \<Rightarrow> jsval" where
  "riderEmail_of userProfile =
     (case userProfile of
        None \<Rightarrow> Str ''N/A''
      | Some p \<Rightarrow>
          (case p ''email'' of
             None \<Rightarrow> Str ''N/A''
           | Some e \<Rightarrow> if truthy (Some e) then e else Str ''N/A''))"

text \<open>The document that src/_app.js writes, lines 310 to 319.\<close>

definition rideRequest_doc ::
  "(real \<Rightarrow> string) \<Rightarrow> string \<Rightarrow> real \<Rightarrow> real \<Rightarrow> nat \<Rightarrow> fields option \<Rightarrow> fields" where
  "rideRequest_doc numstr uid latitude longitude now userProfile =
     [''riderId'' \<mapsto> Str uid,
      ''pickupLocation'' \<mapsto> Str (''Lat: '' @ numstr latitude @ '', Lng: '' @ numstr longitude),
      ''pickupLatitude'' \<mapsto> Num latitude,
      ''pickupLongitude'' \<mapsto> Num longitude,
      ''destination'' \<mapsto> Str ''Destination (Placeholder)'',
      ''status'' \<mapsto> Str ''pending'',
      ''timestamp'' \<mapsto> Time now,
      ''riderEmail'' \<mapsto> riderEmail_of userProfile]"

text \<open>
  \<open>handleRequestRide\<close> of src/_app.js, lines 286 to 351. The reference is built and the
  document written inside the \<open>try\<close> of lines 307 to 328: when either call throws, nothing
  is written and the \<open>catch\<close> shows the error's message.
\<close>

definition handleRequestRide ::
  "(real \<Rightarrow> string) \<Rightarrow> (string list \<Rightarrow> bool) \<Rightarrow> bool \<Rightarrow> string option \<Rightarrow> fields option
     \<Rightarrow> geo_result option \<Rightarrow> nat \<Rightarrow> store \<Rightarrow> store \<times> snackbar list" where
  "handleRequestRide numstr accepts db userId userProfile geolocation now s =
     (if \<not> db then (s, [notify ''Please log in to request a ride.'' ''error''])
      else case userId of
        None \<Rightarrow> (s, [notify ''Please log in to request a ride.'' ''error''])
      | Some uid \<Rightarrow>
          if uid = [] then (s, [notify ''Please log in to request a ride.'' ''error''])
          else
            (case geolocation of
               None \<Rightarrow>
                 (s, [notify ''Getting your location...'' ''info'',
                      notify ''Geolocation is not supported by your browser.'' ''error''])
             | Some (PositionError c) \<Rightarrow>
                 (s, [notify ''Getting your location...'' ''info'',
                      notify (''Geolocation error: '' @ geo_errorMessage c) ''error''])
             | Some (Position latitude longitude) \<Rightarrow>
                 (case doc uid of
                    Inl e \<Rightarrow>
                      (s, [notify ''Getting your location...'' ''info'',
                           notify ''Requesting ride...'' ''info'',
                           notify (''Failed to request ride: '' @ message e) ''error''])
                  | Inr rideRequestDocRef \<Rightarrow>
                      (case setDoc accepts s rideRequestDocRef
                              (rideRequest_doc numstr uid latitude longitude now userProfile) of
                         Inl e \<Rightarrow>
                           (s, [notify ''Getting your location...'' ''info'',
                                notify ''Requesting ride...'' ''info'',
                                notify (''Failed to request ride: '' @ message e) ''error''])
                       | Inr s' \<Rightarrow>
                           (s', [notify ''Getting your location...'' ''info'',
                                 notify ''Requesting ride...'' ''info'',
                                 notify ''Ride requested successfully! Drivers have been alerted.''
                                   ''success''])))))"

text \<open>
  The older \<open>handleRequestRide\<close> of src/app.js, lines 281 to 303: no geolocation, a
  placeholder pickup location, and a status line instead of the snackbar. The \<open>try\<close> is
  lines 288 to 302.
\<close>

definition rideRequest_doc_plain :: "string \<Rightarrow> nat \<Rightarrow> fields option \<Rightarrow> fields" where
  "rideRequest_doc_plain uid now userProfile =
     [''riderId'' \<mapsto> Str uid,
      ''pickupLocation'' \<mapsto> Str ''Current Location (Placeholder)'',
      ''destination'' \<mapsto> Str ''Destination (Placeholder)'',
      ''status'' \<mapsto> Str ''pending'',
      ''timestamp'' \<mapsto> Time now,
      ''riderEmail'' \<mapsto> riderEmail_of userProfile]"

definition handleRequestRide_plain ::
  "(string list \<Rightarrow> bool) \<Rightarrow> bool \<Rightarrow> string option \<Rightarrow> fields option \<Rightarrow> nat \<Rightarrow> store
     \<Rightarrow> store \<times> string list" where
  "handleRequestRide_plain accepts db userId userProfile now s =
     (if \<not> db then (s, [''Please log in to request a ride.''])
      else case userId of
        None \<Rightarrow> (s, [''Please log in to request a ride.''])
      | Some uid \<Rightarrow>
          if uid = [] then (s, [''Please log in to request a ride.''])
          else
            (case doc uid of
               Inl e \<Rightarrow>
                 (s, [''Requesting ride...'', ''Failed to request ride: '' @ message e])
             | Inr rideRequestDocRef \<Rightarrow>
                 (case setDoc accepts s rideRequestDocRef
                         (rideRequest_doc_plain uid now userProfile) of
                    Inl e \<Rightarrow>
                      (s, [''Requesting ride...'', ''Failed to request ride: '' @ message e])
                  | Inr s' \<Rightarrow>
                      (s', [''Requesting ride...'',
                            ''Ride requested successfully! Waiting for a driver...'']))))"

section \<open>Sequences of operations\<close>





text \<open>
  A field of the record under a reference; \<open>None\<close> when the record or the field is
  absent.
\<close>

definition field_at :: "store \<Rightarrow> string list \<Rightarrow> string \<Rightarrow> jsval option" where
  "field_at s ref f = (case DAList.lookup s ref of None \<Rightarrow> None | Some d \<Rightarrow> d f)"


section \<open>Two accept calls in flight\<close>

text \<open>
  Node runs one handler at a time but switches between calls at every \<open>await\<close>, so two
  accept calls on the same id interleave at the granularity of their two steps. A call
  is about to check, about to write to the reference it has built, or has returned. A
  schedule names, step by step, the call that moves (\<open>True\<close> for the first) and the
  server's clock at that step.
\<close>

datatype call = Checking | Writing "string list" | Returned response

fun accept_step ::
  "(string list \<Rightarrow> bool) \<Rightarrow> string \<Rightarrow> fields \<Rightarrow> nat \<Rightarrow> store \<times> call \<Rightarrow> store \<times> call" where
  "accept_step accepts rideRequestId reqBody now (s, Checking) =
     (case acceptRide_check accepts s rideRequestId reqBody of
        Inl r \<Rightarrow> (s, Returned r)
      | Inr rideRequestRef \<Rightarrow> (s, Writing rideRequestRef))"
| "accept_step accepts rideRequestId reqBody now (s, Writing rideRequestRef) =
     (case acceptRide_write accepts s rideRequestRef rideRequestId reqBody now of
        (r, s') \<Rightarrow> (s', Returned r))"
| "accept_step accepts rideRequestId reqBody now (s, Returned r) = (s, Returned r)"




text \<open>
  What a successful accept call answers, and whether the record under a reference is
  accepted with the driver fields of a given request body.
\<close>

definition accepted_response :: "string \<Rightarrow> response" where
  "accepted_response rideRequestId =
     Response 200
       (JObject [''message'' \<mapsto> Str ''Ride request accepted successfully.'',
                 ''rideRequestId'' \<mapsto> Str rideRequestId])"


section \<open>The scenario of the specification\<close>

text \<open>
  The run of section 8 of the specification: rider1 requests a ride at latitude 40,
  longitude -73, with the profile email a@x.com; driver A (Alice, Civic) accepts it;
  the ride is completed. Driver B (Bob, Prius) is a second driver. The clock values are
  1, 2 and 3. No claim depends on how the coordinates are rendered inside
  \<open>pickupLocation\<close>, so the scenario renders them as the empty string; and its store
  accepts every reference. \<open>nested_pending\<close> is the store after a request by a rider
  whose id has three segments.
\<close>

definition render_none :: "real \<Rightarrow> string" where
  "render_none x = []"

definition accepts_all :: "string list \<Rightarrow> bool" where
  "accepts_all ref = True"

definition accepts_none :: "string list \<Rightarrow> bool" where
  "accepts_none ref = False"

definition driverA :: fields where
  "driverA = [''driverId'' \<mapsto> Str ''driverA'', ''driverName'' \<mapsto> Str ''Alice'',
              ''driverVehicle'' \<mapsto> Str ''Civic'']"


definition profileA :: fields where
  "profileA = [''email'' \<mapsto> Str ''a@x.com'']"

definition scenario_pending :: store where
  "scenario_pending =
     fst (handleRequestRide render_none accepts_all True (Some ''rider1'') (Some profileA)
            (Some (Position 40 (- 73))) 1 DAList.empty)"

definition scenario_accepted :: store where
  "scenario_accepted = snd (acceptRide accepts_all scenario_pending ''rider1'' driverA 2)"

definition scenario_completed :: store where
  "scenario_completed = snd (completeRide accepts_all scenario_accepted ''rider1'' 3)"


section \<open>Properties of document references\<close>

lemma split_slash_plain: "CHR ''/'' \<notin> set p \<Longrightarrow> split_slash p = [p]"
  by (induction p) auto

lemma double_slash_plain: "CHR ''/'' \<notin> set p \<Longrightarrow> \<not> double_slash p"
  by (induction p rule: double_slash.induct) auto

lemma doc_plain: "CHR ''/'' \<notin> set p \<Longrightarrow> p \<noteq> [] \<Longrightarrow> doc p = Inr [p]"
  by (simp add: doc_def segments_def split_slash_plain double_slash_plain)

lemma doc_rider1: "doc ''rider1'' = Inr [''rider1'']"
  by (rule doc_plain) simp_all

lemma doc_rider2: "doc ''rider2'' = Inr [''rider2'']"
  by (rule doc_plain) simp_all

lemma doc_two_segments:
  "doc ''a/b'' = Inl (StoreError ''Your path does not contain an even number of components.'')"
  by (simp add: doc_def segments_def)


lemma doc_nonempty: "doc p = Inr ref \<Longrightarrow> p \<noteq> []"
  by (auto simp add: doc_def)

section \<open>The effect of each operation on the store\<close>


lemma acceptRide_invalid:
  "\<not> truthy (b ''driverId'') \<or> \<not> truthy (b ''driverName'') \<or> \<not> truthy (b ''driverVehicle'')
     \<Longrightarrow> acceptRide accepts s rid b now =
       (Response 400
          (JObject [''error'' \<mapsto> Str ''Driver ID, name, and vehicle are required.'']), s)"
  by (simp add: acceptRide_def acceptRide_check_def)

lemma acceptRide_no_ref:
  "truthy (b ''driverId'') \<Longrightarrow> truthy (b ''driverName'') \<Longrightarrow> truthy (b ''driverVehicle'')
     \<Longrightarrow> doc rid = Inl e \<Longrightarrow> acceptRide accepts s rid b now = (accept_failed e, s)"
  by (simp add: acceptRide_def acceptRide_check_def)

lemma acceptRide_rejected:
  "truthy (b ''driverId'') \<Longrightarrow> truthy (b ''driverName'') \<Longrightarrow> truthy (b ''driverVehicle'')
     \<Longrightarrow> doc rid = Inr ref \<Longrightarrow> \<not> accepts ref
     \<Longrightarrow> acceptRide accepts s rid b now = (accept_failed (StoreError ''INVALID_ARGUMENT''), s)"
  by (simp add: acceptRide_def acceptRide_check_def ref_get_def)

lemma acceptRide_absent:
  "truthy (b ''driverId'') \<Longrightarrow> truthy (b ''driverName'') \<Longrightarrow> truthy (b ''driverVehicle'')
     \<Longrightarrow> doc rid = Inr ref \<Longrightarrow> accepts ref \<Longrightarrow> DAList.lookup s ref = None
     \<Longrightarrow> acceptRide accepts s rid b now =
       (Response 404 (JObject [''error'' \<mapsto> Str ''Ride request not found.'']), s)"
  by (simp add: acceptRide_def acceptRide_check_def ref_get_def)

lemma acceptRide_check_passes:
  "truthy (b ''driverId'') \<Longrightarrow> truthy (b ''driverName'') \<Longrightarrow> truthy (b ''driverVehicle'')
     \<Longrightarrow> doc rid = Inr ref \<Longrightarrow> accepts ref \<Longrightarrow> DAList.lookup s ref = Some d
     \<Longrightarrow> acceptRide_check accepts s rid b = Inr ref"
  by (simp add: acceptRide_check_def ref_get_def)

lemma acceptRide_write_succeeds:
  "accepts ref \<Longrightarrow> DAList.lookup s ref = Some d \<Longrightarrow>
     acceptRide_write accepts s ref rid b now =
       (accepted_response rid, DAList.update ref (d ++ accept_update b now) s)"
  by (simp add: acceptRide_write_def ref_update_def accepted_response_def)

lemma acceptRide_succeeds:
  "truthy (b ''driverId'') \<Longrightarrow> truthy (b ''driverName'') \<Longrightarrow> truthy (b ''driverVehicle'')
     \<Longrightarrow> doc rid = Inr ref \<Longrightarrow> accepts ref \<Longrightarrow> DAList.lookup s ref = Some d \<Longrightarrow>
     acceptRide accepts s rid b now =
       (accepted_response rid, DAList.update ref (d ++ accept_update b now) s)"
  by (simp add: acceptRide_def acceptRide_check_passes acceptRide_write_succeeds)

lemma acceptRide_store:
  "snd (acceptRide accepts s rid b now) =
     (case doc rid of
        Inl e \<Rightarrow> s
      | Inr ref \<Rightarrow>
          (case DAList.lookup s ref of
             None \<Rightarrow> s
           | Some d \<Rightarrow>
               if accepts ref \<and> truthy (b ''driverId'') \<and> truthy (b ''driverName'')
                    \<and> truthy (b ''driverVehicle'')
               then DAList.update ref (d ++ accept_update b now) s else s))"
proof (cases "truthy (b ''driverId'') \<and> truthy (b ''driverName'') \<and> truthy (b ''driverVehicle'')")
  case False
  then show ?thesis
    by (auto simp add: acceptRide_invalid split: sum.splits option.splits)
next
  case v: True
  show ?thesis
  proof (cases "doc rid")
    case (Inl e)
    with v show ?thesis by (simp add: acceptRide_no_ref)
  next
    case (Inr ref)
    show ?thesis
    proof (cases "accepts ref")
      case False
      with v Inr show ?thesis
        by (simp add: acceptRide_rejected split: option.splits)
    next
      case True
      with v Inr show ?thesis
        by (cases "DAList.lookup s ref") (simp_all add: acceptRide_absent acceptRide_succeeds)
    qed
  qed
qed

lemma lookup_acceptRide:
  "DAList.lookup (snd (acceptRide accepts s rid b now)) k =
     (if doc rid = Inr k \<and> accepts k \<and> truthy (b ''driverId'') \<and> truthy (b ''driverName'')
           \<and> truthy (b ''driverVehicle'')
      then map_option (\<lambda>d. d ++ accept_update b now) (DAList.lookup s k)
      else DAList.lookup s k)"
  by (auto simp add: acceptRide_store lookup_update split: sum.splits option.splits)

lemma completeRide_no_ref:
  "doc rid = Inl e \<Longrightarrow> completeRide accepts s rid now = (complete_failed e, s)"
  by (simp add: completeRide_def)

lemma completeRide_rejected:
  "doc rid = Inr ref \<Longrightarrow> \<not> accepts ref
     \<Longrightarrow> completeRide accepts s rid now = (complete_failed (StoreError ''INVALID_ARGUMENT''), s)"
  by (simp add: completeRide_def ref_get_def)

lemma completeRide_absent:
  "doc rid = Inr ref \<Longrightarrow> accepts ref \<Longrightarrow> DAList.lookup s ref = None
     \<Longrightarrow> completeRide accepts s rid now =
       (Response 404 (JObject [''error'' \<mapsto> Str ''Ride request not found.'']), s)"
  by (simp add: completeRide_def ref_get_def)

lemma completeRide_succeeds:
  "doc rid = Inr ref \<Longrightarrow> accepts ref \<Longrightarrow> DAList.lookup s ref = Some d
     \<Longrightarrow> completeRide accepts s rid now =
       (Response 200
          (JObject [''message'' \<mapsto> Str ''Ride request completed successfully.'',
                    ''rideRequestId'' \<mapsto> Str rid]),
        DAList.update ref
          (d ++ [''status'' \<mapsto> Str ''completed'', ''completedAt'' \<mapsto> Time now]) s)"
  by (simp add: completeRide_def ref_get_def ref_update_def)

lemma lookup_completeRide:
  "DAList.lookup (snd (completeRide accepts s rid now)) k =
     (if doc rid = Inr k \<and> accepts k
      then map_option (\<lambda>d. d ++ [''status'' \<mapsto> Str ''completed'', ''completedAt'' \<mapsto> Time now])
             (DAList.lookup s k)
      else DAList.lookup s k)"
proof (cases "doc rid")
  case (Inl e)
  then show ?thesis by (simp add: completeRide_no_ref)
next
  case (Inr ref)
  show ?thesis
  proof (cases "accepts ref")
    case False
    with Inr show ?thesis by (auto simp add: completeRide_rejected)
  next
    case True
    with Inr show ?thesis
      by (cases "DAList.lookup s ref")
         (auto simp add: completeRide_absent completeRide_succeeds lookup_update)
  qed
qed

lemma handleRequestRide_store:
  "fst (handleRequestRide numstr accepts db userId prof geo now s) =
     (case (userId, geo) of
        (Some uid, Some (Position la lo)) \<Rightarrow>
          (case doc uid of
             Inl e \<Rightarrow> s
           | Inr ref \<Rightarrow>
               if db \<and> accepts ref
               then DAList.update ref (rideRequest_doc numstr uid la lo now prof) s else s)
      | _ \<Rightarrow> s)"
  by (auto simp add: handleRequestRide_def setDoc_def doc_def
      split: option.splits geo_result.splits sum.splits)


lemma lookup_handleRequestRide:
  "DAList.lookup (fst (handleRequestRide numstr accepts db userId prof geo now s)) k =
     (case (userId, geo) of
        (Some uid, Some (Position la lo)) \<Rightarrow>
          if db \<and> doc uid = Inr k \<and> accepts k
          then Some (rideRequest_doc numstr uid la lo now prof)
          else DAList.lookup s k
      | _ \<Rightarrow> DAList.lookup s k)"
  by (auto simp add: handleRequestRide_store lookup_update
      split: option.splits geo_result.splits sum.splits)








lemma truthy_Some: "truthy v \<Longrightarrow> \<exists>x. v = Some x"
  by (cases v) simp_all


lemma merged_accept_update_field:
  assumes "truthy (b ''driverId'')" "truthy (b ''driverName'')" "truthy (b ''driverVehicle'')"
  shows "(d ++ accept_update b now) f =
      (if f = ''status'' then Some (Str ''accepted'')
       else if f = ''acceptedAt'' then Some (Time now)
       else if f \<in> {''driverId'', ''driverName'', ''driverVehicle''} then b f
       else d f)"
proof -
  from assms obtain x y z where
    "b ''driverId'' = Some x" "b ''driverName'' = Some y" "b ''driverVehicle'' = Some z"
    by (blast dest: truthy_Some)
  then show ?thesis
    by (simp add: accept_update_def map_add_def)
qed



lemma field_at_completeRide:
  "field_at (snd (completeRide accepts s rid now)) k f =
     (if doc rid = Inr k \<and> accepts k \<and> DAList.lookup s k \<noteq> None
      then (if f = ''status'' then Some (Str ''completed'')
            else if f = ''completedAt'' then Some (Time now)
            else field_at s k f)
      else field_at s k f)"
  by (auto simp add: field_at_def lookup_completeRide map_add_def)



lemma rideRequest_doc_status:
  "rideRequest_doc numstr uid la lo now prof ''status'' = Some (Str ''pending'')"
  "rideRequest_doc_plain uid now prof ''status'' = Some (Str ''pending'')"
  by (simp_all add: rideRequest_doc_def rideRequest_doc_plain_def)

lemma rideRequest_doc_fields:
  "rideRequest_doc numstr uid la lo now prof ''riderId'' = Some (Str uid)"
  "rideRequest_doc numstr uid la lo now prof ''pickupLatitude'' = Some (Num la)"
  "rideRequest_doc numstr uid la lo now prof ''pickupLongitude'' = Some (Num lo)"
  "rideRequest_doc numstr uid la lo now prof ''destination'' = Some (Str ''Destination (Placeholder)'')"
  "rideRequest_doc numstr uid la lo now prof ''timestamp'' = Some (Time now)"
  "rideRequest_doc numstr uid la lo now prof ''riderEmail'' = Some (riderEmail_of prof)"
  by (simp_all add: rideRequest_doc_def)

lemma rideRequest_doc_plain_fields:
  "rideRequest_doc_plain uid now prof ''riderId'' = Some (Str uid)"
  "rideRequest_doc_plain uid now prof ''destination'' = Some (Str ''Destination (Placeholder)'')"
  "rideRequest_doc_plain uid now prof ''timestamp'' = Some (Time now)"
  "rideRequest_doc_plain uid now prof ''riderEmail'' = Some (riderEmail_of prof)"
  by (simp_all add: rideRequest_doc_plain_def)

lemma riderEmail_of_email:
  "p ''email'' = Some e \<Longrightarrow> truthy (Some e) \<Longrightarrow> riderEmail_of (Some p) = e"
  by (simp add: riderEmail_of_def)

lemma riderEmail_of_default:
  "riderEmail_of None = Str ''N/A''"
  "\<not> truthy (p ''email'') \<Longrightarrow> riderEmail_of (Some p) = Str ''N/A''"
  by (auto simp add: riderEmail_of_def split: option.splits)

lemma rideRequest_doc_no_driver:
  "rideRequest_doc numstr uid la lo now prof ''driverId'' = None"
  "rideRequest_doc numstr uid la lo now prof ''driverName'' = None"
  "rideRequest_doc numstr uid la lo now prof ''driverVehicle'' = None"
  "rideRequest_doc numstr uid la lo now prof ''acceptedAt'' = None"
  "rideRequest_doc numstr uid la lo now prof ''completedAt'' = None"
  by (simp_all add: rideRequest_doc_def)

lemma rideRequest_doc_plain_no_driver:
  "rideRequest_doc_plain uid now prof ''driverId'' = None"
  "rideRequest_doc_plain uid now prof ''driverName'' = None"
  "rideRequest_doc_plain uid now prof ''driverVehicle'' = None"
  "rideRequest_doc_plain uid now prof ''acceptedAt'' = None"
  "rideRequest_doc_plain uid now prof ''completedAt'' = None"
  by (simp_all add: rideRequest_doc_plain_def)

lemma rideRequest_doc_undriven:
  assumes "f \<in> {''driverId'', ''driverName'', ''driverVehicle'', ''acceptedAt'', ''completedAt''}"
  shows "rideRequest_doc numstr uid la lo now prof f = None"
    and "rideRequest_doc_plain uid now prof f = None"
  using assms
  by (elim insertE emptyE; simp only: rideRequest_doc_no_driver rideRequest_doc_plain_no_driver)+



section \<open>Invariants of the reachable stores\<close>






lemma handleRequestRide_succeeds:
  assumes "doc uid = Inr ref" and "accepts ref"
  shows "handleRequestRide numstr accepts True (Some uid) prof (Some (Position la lo)) now s =
     (DAList.update ref (rideRequest_doc numstr uid la lo now prof) s,
      [notify ''Getting your location...'' ''info'',
       notify ''Requesting ride...'' ''info'',
       notify ''Ride requested successfully! Drivers have been alerted.'' ''success''])"
    and "handleRequestRide_plain accepts True (Some uid) prof now s =
     (DAList.update ref (rideRequest_doc_plain uid now prof) s,
      [''Requesting ride...'', ''Ride requested successfully! Waiting for a driver...''])"
  using assms doc_nonempty [OF assms(1)]
  by (simp_all add: handleRequestRide_def handleRequestRide_plain_def setDoc_def)

lemma handleRequestRide_no_ref:
  assumes "uid \<noteq> []" and "doc uid = Inl e"
  shows "handleRequestRide numstr accepts True (Some uid) prof (Some (Position la lo)) now s =
     (s, [notify ''Getting your location...'' ''info'',
          notify ''Requesting ride...'' ''info'',
          notify (''Failed to request ride: '' @ message e) ''error''])"
    and "handleRequestRide_plain accepts True (Some uid) prof now s =
     (s, [''Requesting ride...'', ''Failed to request ride: '' @ message e])"
  using assms
  by (simp_all add: handleRequestRide_def handleRequestRide_plain_def)

lemma handleRequestRide_rejected:
  assumes "doc uid = Inr ref" and "\<not> accepts ref"
  shows "handleRequestRide numstr accepts True (Some uid) prof (Some (Position la lo)) now s =
     (s, [notify ''Getting your location...'' ''info'',
          notify ''Requesting ride...'' ''info'',
          notify ''Failed to request ride: INVALID_ARGUMENT'' ''error''])"
    and "handleRequestRide_plain accepts True (Some uid) prof now s =
     (s, [''Requesting ride...'', ''Failed to request ride: INVALID_ARGUMENT''])"
  using assms doc_nonempty [OF assms(1)]
  by (simp_all add: handleRequestRide_def handleRequestRide_plain_def setDoc_def)

section \<open>The scenario, evaluated\<close>

lemma scenario_pending_lookup:
  "DAList.lookup scenario_pending k =
     (if k = [''rider1'']
      then Some (rideRequest_doc render_none ''rider1'' 40 (- 73) 1 (Some profileA))
      else None)"
  by (simp add: scenario_pending_def lookup_handleRequestRide doc_rider1 accepts_all_def)





lemma accepts_all: "accepts_all ref"
  by (simp add: accepts_all_def)

lemma driverA_truthy:
  "truthy (driverA ''driverId'')" "truthy (driverA ''driverName'')" "truthy (driverA ''driverVehicle'')"
  by (simp_all add: driverA_def)








lemma scenario_accepted_lookup:
  "DAList.lookup scenario_accepted [''rider1''] =
     Some (rideRequest_doc render_none ''rider1'' 40 (- 73) 1 (Some profileA)
             ++ accept_update driverA 2)"
  by (simp add: scenario_accepted_def lookup_acceptRide driverA_truthy scenario_pending_lookup
      doc_rider1 accepts_all)




section \<open>Interleaved accept calls\<close>


text \<open>One call taking its two steps with no other call in between is \<open>acceptRide\<close>.\<close>

lemma accept_steps_alone:
  "accept_step accepts rid b now (accept_step accepts rid b now' (s, Checking)) =
     (snd (acceptRide accepts s rid b now), Returned (fst (acceptRide accepts s rid b now)))"
proof (cases "acceptRide_check accepts s rid b")
  case (Inr ref)
  then show ?thesis
    by (cases "acceptRide_write accepts s ref rid b now") (simp add: acceptRide_def)
next
  case (Inl r)
  then show ?thesis
    by (simp add: acceptRide_def)
qed





section \<open>The driver fields of a record\<close>







section \<open>The lifecycle of the status\<close>







section \<open>Two drivers accepting the same request\<close>




section \<open>The listing of pending requests\<close>






section \<open>Errors of the driver service\<close>

text \<open>
  Claim C6. Whatever the store holds and whatever the id, acceptRide answers 400
  ("Driver ID, name, and vehicle are required.") and leaves the store unchanged as soon
  as one of driverId, driverName, driverVehicle is falsy in the body: missing, the empty
  string, and also null, false or 0. The test comes before the reference is built, so
  the answer is the same for an id that is no path to a document.
\<close>

theorem invalid_argument_on_missing_driver_field:
  assumes "f \<in> {''driverId'', ''driverName'', ''driverVehicle''}"
    and "\<not> truthy (reqBody f)"
  shows "acceptRide accepts s rid reqBody now =
           (Response 400
              (JObject [''error'' \<mapsto> Str ''Driver ID, name, and vehicle are required.'']), s)"
proof -
  from assms have "\<not> truthy (reqBody ''driverId'') \<or> \<not> truthy (reqBody ''driverName'')
         \<or> \<not> truthy (reqBody ''driverVehicle'')"
    by blast
  then show ?thesis
    by (rule acceptRide_invalid)
qed

text \<open>
  An empty driverName on the existing pending record of rider1, and a missing
  driverVehicle on an id that has no record and on the id a/b.
\<close>

theorem invalid_argument_on_missing_driver_field_witness:
  "acceptRide accepts_all scenario_pending ''rider1''
      [''driverId'' \<mapsto> Str ''driverA'', ''driverName'' \<mapsto> Str [],
       ''driverVehicle'' \<mapsto> Str ''Civic''] 2 =
     (Response 400
        (JObject [''error'' \<mapsto> Str ''Driver ID, name, and vehicle are required.'']),
      scenario_pending)
   \<and> acceptRide accepts_all DAList.empty ''rider9''
      [''driverId'' \<mapsto> Str ''driverA'', ''driverName'' \<mapsto> Str ''Alice''] 2 =
     (Response 400
        (JObject [''error'' \<mapsto> Str ''Driver ID, name, and vehicle are required.'']),
      DAList.empty)
   \<and> acceptRide accepts_all DAList.empty ''a/b''
      [''driverId'' \<mapsto> Str ''driverA'', ''driverName'' \<mapsto> Str ''Alice''] 2 =
     (Response 400
        (JObject [''error'' \<mapsto> Str ''Driver ID, name, and vehicle are required.'']),
      DAList.empty)"
proof (intro conjI)
  have "\<not> truthy ([''driverId'' \<mapsto> Str ''driverA'', ''driverName'' \<mapsto> Str [],
       ''driverVehicle'' \<mapsto> Str ''Civic''] ''driverName'')"
    by simp
  then show "acceptRide accepts_all scenario_pending ''rider1''
      [''driverId'' \<mapsto> Str ''driverA'', ''driverName'' \<mapsto> Str [],
       ''driverVehicle'' \<mapsto> Str ''Civic''] 2 =
     (Response 400
        (JObject [''error'' \<mapsto> Str ''Driver ID, name, and vehicle are required.'']),
      scenario_pending)"
    by (rule invalid_argument_on_missing_driver_field [rotated]) simp
  have n: "\<not> truthy ([''driverId'' \<mapsto> Str ''driverA'', ''driverName'' \<mapsto> Str ''Alice'']
          ''driverVehicle'')"
    by simp
  from n show "acceptRide accepts_all DAList.empty ''rider9''
      [''driverId'' \<mapsto> Str ''driverA'', ''driverName'' \<mapsto> Str ''Alice''] 2 =
     (Response 400
        (JObject [''error'' \<mapsto> Str ''Driver ID, name, and vehicle are required.'']),
      DAList.empty)"
    by (rule invalid_argument_on_missing_driver_field [rotated]) simp
  from n show "acceptRide accepts_all DAList.empty ''a/b''
      [''driverId'' \<mapsto> Str ''driverA'', ''driverName'' \<mapsto> Str ''Alice''] 2 =
     (Response 400
        (JObject [''error'' \<mapsto> Str ''Driver ID, name, and vehicle are required.'']),
      DAList.empty)"
    by (rule invalid_argument_on_missing_driver_field [rotated]) simp
qed

text \<open>
  Claim C7 says that acceptRide and completeRide answer 404 for every id at which no
  record exists. What holds (the claim as amended): when the id is a path to a document
  that the store accepts and no record is stored there, acceptRide with all three driver
  fields present and completeRide both answer 404 ("Ride request not found.") and leave
  the store unchanged; when the id is no path to a document (it has two slashes in a
  row or an even number of segments) or the store does not accept the document's path,
  both answer 500 with the error's message and leave the store unchanged.
\<close>

theorem not_found_on_absent_id:
  assumes "truthy (reqBody ''driverId'')"
    and "truthy (reqBody ''driverName'')"
    and "truthy (reqBody ''driverVehicle'')"
  shows "(doc rid = Inr ref \<longrightarrow> accepts ref \<longrightarrow> DAList.lookup s ref = None \<longrightarrow>
            acceptRide accepts s rid reqBody now =
              (Response 404 (JObject [''error'' \<mapsto> Str ''Ride request not found.'']), s)
            \<and> completeRide accepts s rid now' =
              (Response 404 (JObject [''error'' \<mapsto> Str ''Ride request not found.'']), s))
       \<and> (doc rid = Inl e \<longrightarrow>
            acceptRide accepts s rid reqBody now =
              (Response 500
                 (JObject [''error'' \<mapsto> Str ''Failed to accept ride request'',
                           ''details'' \<mapsto> Str (message e)]), s)
            \<and> completeRide accepts s rid now' =
              (Response 500
                 (JObject [''error'' \<mapsto> Str ''Failed to complete ride request'',
                           ''details'' \<mapsto> Str (message e)]), s))
       \<and> (doc rid = Inr ref \<longrightarrow> \<not> accepts ref \<longrightarrow>
            acceptRide accepts s rid reqBody now =
              (Response 500
                 (JObject [''error'' \<mapsto> Str ''Failed to accept ride request'',
                           ''details'' \<mapsto> Str ''INVALID_ARGUMENT'']), s)
            \<and> completeRide accepts s rid now' =
              (Response 500
                 (JObject [''error'' \<mapsto> Str ''Failed to complete ride request'',
                           ''details'' \<mapsto> Str ''INVALID_ARGUMENT'']), s))"
  using assms
  by (simp add: acceptRide_absent completeRide_absent acceptRide_no_ref completeRide_no_ref
      acceptRide_rejected completeRide_rejected accept_failed_def complete_failed_def)

text \<open>
  The scenario has no record for rider2; the id a//b is no path to a document; and a
  store that accepts no path.
\<close>

theorem not_found_on_absent_id_witness:
  "acceptRide accepts_all scenario_pending ''rider2'' driverA 5 =
     (Response 404 (JObject [''error'' \<mapsto> Str ''Ride request not found.'']), scenario_pending)
   \<and> completeRide accepts_all scenario_pending ''rider2'' 6 =
     (Response 404 (JObject [''error'' \<mapsto> Str ''Ride request not found.'']), scenario_pending)
   \<and> acceptRide accepts_all scenario_pending ''a//b'' driverA 5 =
     (Response 500
        (JObject [''error'' \<mapsto> Str ''Failed to accept ride request'',
                  ''details'' \<mapsto> Str ''Paths must not contain //.'']), scenario_pending)
   \<and> completeRide accepts_none scenario_pending ''rider1'' 6 =
     (Response 500
        (JObject [''error'' \<mapsto> Str ''Failed to complete ride request'',
                  ''details'' \<mapsto> Str ''INVALID_ARGUMENT'']), scenario_pending)"
proof -
  have l: "DAList.lookup scenario_pending [''rider2''] = None"
    by (simp add: scenario_pending_lookup)
  have e: "doc ''a//b'' = Inl (StoreError ''Paths must not contain //.'')"
    by (simp add: doc_def)
  have n: "\<not> accepts_none [''rider1'']"
    by (simp add: accepts_none_def)
  note t = not_found_on_absent_id [OF driverA_truthy]
  note a = t [where accepts = accepts_all and rid = "''rider2''" and s = scenario_pending
      and now = 5 and now' = 6,
      THEN conjunct1, rule_format, OF doc_rider2 accepts_all l]
  note b = t [where accepts = accepts_all and rid = "''a//b''" and s = scenario_pending
      and now = 5,
      THEN conjunct2, THEN conjunct1, rule_format, OF e, THEN conjunct1]
  note c = t [where accepts = accepts_none and rid = "''rider1''" and s = scenario_pending
      and now' = 6,
      THEN conjunct2, THEN conjunct2, rule_format, OF doc_rider1 n, THEN conjunct2]
  from a b c show ?thesis by simp
qed

text \<open>
  Claim C7 as stated fails. No record is stored under a/b, and both handlers answer
  500.
\<close>

theorem server_error_on_unaddressable_id:
  "DAList.lookup DAList.empty [''a'', ''b''] = (None :: fields option)
   \<and> acceptRide accepts_all DAList.empty ''a/b'' driverA 5 =
     (Response 500
        (JObject [''error'' \<mapsto> Str ''Failed to accept ride request'',
                  ''details'' \<mapsto>
                    Str ''Your path does not contain an even number of components.'']),
      DAList.empty)
   \<and> completeRide accepts_all DAList.empty ''a/b'' 6 =
     (Response 500
        (JObject [''error'' \<mapsto> Str ''Failed to complete ride request'',
                  ''details'' \<mapsto>
                    Str ''Your path does not contain an even number of components.'']),
      DAList.empty)"
  by (simp add: acceptRide_no_ref [OF driverA_truthy doc_two_segments]
      completeRide_no_ref [OF doc_two_segments] accept_failed_def complete_failed_def)

section \<open>The frame of completeRide\<close>

text \<open>
  Claim C8. On an existing record completeRide succeeds (200), sets status to completed
  and completedAt to the server's clock, and leaves every other field of the record, and
  every other record, as it was.
\<close>

theorem completeRide_frame:
  assumes "doc rid = Inr ref" and "accepts ref"
    and "DAList.lookup s ref = Some d"
  shows "fst (completeRide accepts s rid now) =
           Response 200
             (JObject [''message'' \<mapsto> Str ''Ride request completed successfully.'',
                       ''rideRequestId'' \<mapsto> Str rid])
         \<and> field_at (snd (completeRide accepts s rid now)) ref ''status''
             = Some (Str ''completed'')
         \<and> field_at (snd (completeRide accepts s rid now)) ref ''completedAt''
             = Some (Time now)
         \<and> (\<forall>f. f \<noteq> ''status'' \<longrightarrow> f \<noteq> ''completedAt'' \<longrightarrow>
               field_at (snd (completeRide accepts s rid now)) ref f = d f)
         \<and> (\<forall>k. k \<noteq> ref \<longrightarrow>
               DAList.lookup (snd (completeRide accepts s rid now)) k = DAList.lookup s k)"
proof (intro conjI allI impI)
  from assms show "fst (completeRide accepts s rid now) =
           Response 200
             (JObject [''message'' \<mapsto> Str ''Ride request completed successfully.'',
                       ''rideRequestId'' \<mapsto> Str rid])"
    by (simp add: completeRide_succeeds)
  from assms show "field_at (snd (completeRide accepts s rid now)) ref ''status''
      = Some (Str ''completed'')"
    by (simp add: field_at_completeRide)
  from assms show "field_at (snd (completeRide accepts s rid now)) ref ''completedAt''
      = Some (Time now)"
    by (simp add: field_at_completeRide)
next
  fix f :: string assume "f \<noteq> ''status''" and "f \<noteq> ''completedAt''"
  with assms show "field_at (snd (completeRide accepts s rid now)) ref f = d f"
    by (simp add: field_at_completeRide) (simp add: field_at_def)
next
  fix k assume "k \<noteq> ref"
  with assms(1) show "DAList.lookup (snd (completeRide accepts s rid now)) k = DAList.lookup s k"
    by (auto simp add: lookup_completeRide)
qed

text \<open>
  Completing the accepted ride of the scenario keeps the driver's name, the pickup
  latitude and the rider's email.
\<close>

theorem completeRide_frame_witness:
  "fst (completeRide accepts_all scenario_accepted ''rider1'' 3) =
     Response 200
       (JObject [''message'' \<mapsto> Str ''Ride request completed successfully.'',
                 ''rideRequestId'' \<mapsto> Str ''rider1''])
   \<and> field_at scenario_completed [''rider1''] ''status'' = Some (Str ''completed'')
   \<and> field_at scenario_completed [''rider1''] ''completedAt'' = Some (Time 3)
   \<and> field_at scenario_completed [''rider1''] ''driverName'' = Some (Str ''Alice'')
   \<and> field_at scenario_completed [''rider1''] ''pickupLatitude'' = Some (Num 40)
   \<and> field_at scenario_completed [''rider1''] ''riderEmail'' = Some (Str ''a@x.com'')"
proof -
  let ?d = "rideRequest_doc render_none ''rider1'' 40 (- 73) 1 (Some profileA)"
  note fr = completeRide_frame
    [where accepts = accepts_all, OF doc_rider1 accepts_all scenario_accepted_lookup, of 3]
  have a: "(?d ++ accept_update driverA 2) ''driverName'' = Some (Str ''Alice'')"
    by (simp add: merged_accept_update_field driverA_truthy) (simp add: driverA_def)
  have b: "(?d ++ accept_update driverA 2) ''pickupLatitude'' = Some (Num 40)"
    by (simp add: merged_accept_update_field driverA_truthy) (simp add: rideRequest_doc_def)
  have c: "(?d ++ accept_update driverA 2) ''riderEmail'' = Some (Str ''a@x.com'')"
    by (simp add: merged_accept_update_field driverA_truthy)
       (simp add: rideRequest_doc_def riderEmail_of_def profileA_def)
  from fr a b c show ?thesis
    by (simp add: scenario_completed_def)
qed

section \<open>Requesting a ride\<close>

text \<open>
  Claim C4 says that requestRide succeeds for every rider id. What holds (the claim as
  amended): for every rider id that is a path to a document which the store accepts, and
  every store, requestRide (with the store handle set and, in src/_app.js, a position
  acquired) ends with the success notification, and a read of the rider's document then
  returns exactly the fresh document, whatever was stored there before: status pending,
  the rider id, the coordinates, the placeholder destination, the timestamp, the email
  of the profile (N/A when the profile or its email is missing or falsy), and none of
  driverId, driverName, driverVehicle, acceptedAt, completedAt. The same holds for the
  handler of src/app.js, which has no coordinates. For a rider id that is no path to a
  document, or whose path the store does not accept, nothing is written and the failure
  is shown with the error's message.
\<close>

theorem requestRide_replaces_record:
  "(doc uid = Inr ref \<longrightarrow> accepts ref \<longrightarrow>
      ref_get accepts
        (fst (handleRequestRide numstr accepts True (Some uid) prof (Some (Position la lo)) now s))
        ref = Inr (Some (rideRequest_doc numstr uid la lo now prof))
      \<and> snd (handleRequestRide numstr accepts True (Some uid) prof (Some (Position la lo)) now s)
           = [notify ''Getting your location...'' ''info'',
              notify ''Requesting ride...'' ''info'',
              notify ''Ride requested successfully! Drivers have been alerted.'' ''success'']
      \<and> ref_get accepts (fst (handleRequestRide_plain accepts True (Some uid) prof now s)) ref
           = Inr (Some (rideRequest_doc_plain uid now prof))
      \<and> snd (handleRequestRide_plain accepts True (Some uid) prof now s)
           = [''Requesting ride...'', ''Ride requested successfully! Waiting for a driver...''])
   \<and> (uid \<noteq> [] \<longrightarrow> doc uid = Inl e \<longrightarrow>
        handleRequestRide numstr accepts True (Some uid) prof (Some (Position la lo)) now s =
          (s, [notify ''Getting your location...'' ''info'',
               notify ''Requesting ride...'' ''info'',
               notify (''Failed to request ride: '' @ message e) ''error''])
        \<and> handleRequestRide_plain accepts True (Some uid) prof now s =
          (s, [''Requesting ride...'', ''Failed to request ride: '' @ message e]))
   \<and> (doc uid = Inr ref \<longrightarrow> \<not> accepts ref \<longrightarrow>
        handleRequestRide numstr accepts True (Some uid) prof (Some (Position la lo)) now s =
          (s, [notify ''Getting your location...'' ''info'',
               notify ''Requesting ride...'' ''info'',
               notify ''Failed to request ride: INVALID_ARGUMENT'' ''error''])
        \<and> handleRequestRide_plain accepts True (Some uid) prof now s =
          (s, [''Requesting ride...'', ''Failed to request ride: INVALID_ARGUMENT'']))
   \<and> rideRequest_doc numstr uid la lo now prof ''status'' = Some (Str ''pending'')
   \<and> rideRequest_doc numstr uid la lo now prof ''riderId'' = Some (Str uid)
   \<and> rideRequest_doc numstr uid la lo now prof ''pickupLatitude'' = Some (Num la)
   \<and> rideRequest_doc numstr uid la lo now prof ''pickupLongitude'' = Some (Num lo)
   \<and> rideRequest_doc numstr uid la lo now prof ''destination''
        = Some (Str ''Destination (Placeholder)'')
   \<and> rideRequest_doc numstr uid la lo now prof ''timestamp'' = Some (Time now)
   \<and> rideRequest_doc_plain uid now prof ''status'' = Some (Str ''pending'')
   \<and> rideRequest_doc_plain uid now prof ''riderId'' = Some (Str uid)
   \<and> rideRequest_doc_plain uid now prof ''destination''
        = Some (Str ''Destination (Placeholder)'')
   \<and> rideRequest_doc_plain uid now prof ''timestamp'' = Some (Time now)
   \<and> (\<forall>p v. prof = Some p \<longrightarrow> p ''email'' = Some v \<longrightarrow> truthy (Some v) \<longrightarrow>
         rideRequest_doc numstr uid la lo now prof ''riderEmail'' = Some v
         \<and> rideRequest_doc_plain uid now prof ''riderEmail'' = Some v)
   \<and> (prof = None \<or> (\<exists>p. prof = Some p \<and> \<not> truthy (p ''email'')) \<longrightarrow>
         rideRequest_doc numstr uid la lo now prof ''riderEmail'' = Some (Str ''N/A'')
         \<and> rideRequest_doc_plain uid now prof ''riderEmail'' = Some (Str ''N/A''))
   \<and> (\<forall>f \<in> {''driverId'', ''driverName'', ''driverVehicle'', ''acceptedAt'', ''completedAt''}.
         rideRequest_doc numstr uid la lo now prof f = None
         \<and> rideRequest_doc_plain uid now prof f = None)"
proof -
  have ok: "doc uid = Inr ref \<longrightarrow> accepts ref \<longrightarrow>
      ref_get accepts
        (fst (handleRequestRide numstr accepts True (Some uid) prof (Some (Position la lo)) now s))
        ref = Inr (Some (rideRequest_doc numstr uid la lo now prof))
      \<and> snd (handleRequestRide numstr accepts True (Some uid) prof (Some (Position la lo)) now s)
           = [notify ''Getting your location...'' ''info'',
              notify ''Requesting ride...'' ''info'',
              notify ''Ride requested successfully! Drivers have been alerted.'' ''success'']
      \<and> ref_get accepts (fst (handleRequestRide_plain accepts True (Some uid) prof now s)) ref
           = Inr (Some (rideRequest_doc_plain uid now prof))
      \<and> snd (handleRequestRide_plain accepts True (Some uid) prof now s)
           = [''Requesting ride...'', ''Ride requested successfully! Waiting for a driver...'']"
    by (simp add: handleRequestRide_succeeds ref_get_def)
  have bad: "uid \<noteq> [] \<longrightarrow> doc uid = Inl e \<longrightarrow>
        handleRequestRide numstr accepts True (Some uid) prof (Some (Position la lo)) now s =
          (s, [notify ''Getting your location...'' ''info'',
               notify ''Requesting ride...'' ''info'',
               notify (''Failed to request ride: '' @ message e) ''error''])
        \<and> handleRequestRide_plain accepts True (Some uid) prof now s =
          (s, [''Requesting ride...'', ''Failed to request ride: '' @ message e])"
    by (simp add: handleRequestRide_no_ref)
  have rej: "doc uid = Inr ref \<longrightarrow> \<not> accepts ref \<longrightarrow>
        handleRequestRide numstr accepts True (Some uid) prof (Some (Position la lo)) now s =
          (s, [notify ''Getting your location...'' ''info'',
               notify ''Requesting ride...'' ''info'',
               notify ''Failed to request ride: INVALID_ARGUMENT'' ''error''])
        \<and> handleRequestRide_plain accepts True (Some uid) prof now s =
          (s, [''Requesting ride...'', ''Failed to request ride: INVALID_ARGUMENT''])"
    by (simp add: handleRequestRide_rejected)
  have email: "\<forall>p v. prof = Some p \<longrightarrow> p ''email'' = Some v \<longrightarrow> truthy (Some v) \<longrightarrow>
         rideRequest_doc numstr uid la lo now prof ''riderEmail'' = Some v
         \<and> rideRequest_doc_plain uid now prof ''riderEmail'' = Some v"
    by (simp add: rideRequest_doc_fields rideRequest_doc_plain_fields riderEmail_of_email)
  have noemail: "prof = None \<or> (\<exists>p. prof = Some p \<and> \<not> truthy (p ''email'')) \<longrightarrow>
         rideRequest_doc numstr uid la lo now prof ''riderEmail'' = Some (Str ''N/A'')
         \<and> rideRequest_doc_plain uid now prof ''riderEmail'' = Some (Str ''N/A'')"
    by (auto simp add: rideRequest_doc_fields rideRequest_doc_plain_fields riderEmail_of_default)
  have undriven:
    "\<forall>f \<in> {''driverId'', ''driverName'', ''driverVehicle'', ''acceptedAt'', ''completedAt''}.
          rideRequest_doc numstr uid la lo now prof f = None
          \<and> rideRequest_doc_plain uid now prof f = None"
    by (intro ballI conjI) (rule rideRequest_doc_undriven, assumption)+
  from ok bad rej email noemail undriven show ?thesis
    by (simp only: rideRequest_doc_status rideRequest_doc_fields rideRequest_doc_plain_fields
        simp_thms)
qed

text \<open>
  A second request by rider1 on top of the accepted ride of the scenario; the email with
  and without a profile; a rider id of two segments; and a store that accepts no path.
\<close>

theorem requestRide_replaces_record_witness:
  "ref_get accepts_all
     (fst (handleRequestRide render_none accepts_all True (Some ''rider1'') (Some profileA)
             (Some (Position 41 (- 74))) 9 scenario_accepted)) [''rider1'']
     = Inr (Some (rideRequest_doc render_none ''rider1'' 41 (- 74) 9 (Some profileA)))
   \<and> rideRequest_doc render_none ''rider1'' 41 (- 74) 9 (Some profileA) ''status''
       = Some (Str ''pending'')
   \<and> rideRequest_doc render_none ''rider1'' 41 (- 74) 9 (Some profileA) ''riderEmail''
       = Some (Str ''a@x.com'')
   \<and> rideRequest_doc render_none ''rider1'' 41 (- 74) 9 None ''riderEmail''
       = Some (Str ''N/A'')
   \<and> rideRequest_doc render_none ''rider1'' 41 (- 74) 9 (Some profileA) ''driverId'' = None
   \<and> fst (handleRequestRide render_none accepts_all True (Some ''a/b'') (Some profileA)
             (Some (Position 41 (- 74))) 9 scenario_accepted) = scenario_accepted
   \<and> fst (handleRequestRide_plain accepts_none True (Some ''rider1'') (Some profileA) 9
             scenario_accepted) = scenario_accepted"
proof -
  note t = requestRide_replaces_record
    [where numstr = render_none and uid = "''rider1''" and ref = "[''rider1'']"
       and accepts = accepts_all and prof = "Some profileA" and la = 41 and lo = "- 74"
       and now = 9 and s = scenario_accepted]
  note tn = requestRide_replaces_record
    [where numstr = render_none and uid = "''rider1''" and prof = None and la = 41
       and lo = "- 74" and now = 9]
  note tb = requestRide_replaces_record
    [where numstr = render_none and uid = "''a/b''" and accepts = accepts_all
       and e = "StoreError ''Your path does not contain an even number of components.''"
       and prof = "Some profileA" and la = 41 and lo = "- 74" and now = 9
       and s = scenario_accepted]
  note tr = requestRide_replaces_record
    [where uid = "''rider1''" and ref = "[''rider1'']" and accepts = accepts_none
       and prof = "Some profileA" and now = 9 and s = scenario_accepted]
  have m: "''driverId''
      \<in> {''driverId'', ''driverName'', ''driverVehicle'', ''acceptedAt'', ''completedAt''}"
    by simp
  have pe: "profileA ''email'' = Some (Str ''a@x.com'')" and tv: "truthy (Some (Str ''a@x.com''))"
    by (simp_all add: profileA_def)
  have ne: "''a/b'' \<noteq> []" by simp
  have nn: "\<not> accepts_none [''rider1'']" by (simp add: accepts_none_def)
  have a: "ref_get accepts_all
     (fst (handleRequestRide render_none accepts_all True (Some ''rider1'') (Some profileA)
             (Some (Position 41 (- 74))) 9 scenario_accepted)) [''rider1'']
     = Inr (Some (rideRequest_doc render_none ''rider1'' 41 (- 74) 9 (Some profileA)))"
    using t [THEN conjunct1, rule_format, OF doc_rider1 accepts_all] by (rule conjunct1)
  have b: "rideRequest_doc render_none ''rider1'' 41 (- 74) 9 (Some profileA) ''status''
       = Some (Str ''pending'')"
    by (rule t [THEN conjunct2, THEN conjunct2, THEN conjunct2, THEN conjunct1])
  from t [THEN conjunct2, THEN conjunct2, THEN conjunct2, THEN conjunct2, THEN conjunct2, THEN conjunct2, THEN conjunct2, THEN conjunct2, THEN conjunct2, THEN conjunct2, THEN conjunct2, THEN conjunct2, THEN conjunct2, THEN conjunct1, rule_format, OF refl pe tv]
  have c: "rideRequest_doc render_none ''rider1'' 41 (- 74) 9 (Some profileA) ''riderEmail''
       = Some (Str ''a@x.com'')"
    by (rule conjunct1)
  from tn [THEN conjunct2, THEN conjunct2, THEN conjunct2, THEN conjunct2, THEN conjunct2, THEN conjunct2, THEN conjunct2, THEN conjunct2, THEN conjunct2, THEN conjunct2, THEN conjunct2, THEN conjunct2, THEN conjunct2, THEN conjunct2, THEN conjunct1]
  have d: "rideRequest_doc render_none ''rider1'' 41 (- 74) 9 None ''riderEmail''
       = Some (Str ''N/A'')"
    by simp
  from t [THEN conjunct2, THEN conjunct2, THEN conjunct2, THEN conjunct2, THEN conjunct2, THEN conjunct2, THEN conjunct2, THEN conjunct2, THEN conjunct2, THEN conjunct2, THEN conjunct2, THEN conjunct2, THEN conjunct2, THEN conjunct2, THEN conjunct2, rule_format, OF m]
  have e: "rideRequest_doc render_none ''rider1'' 41 (- 74) 9 (Some profileA) ''driverId'' = None"
    by (rule conjunct1)
  have f: "fst (handleRequestRide render_none accepts_all True (Some ''a/b'') (Some profileA)
             (Some (Position 41 (- 74))) 9 scenario_accepted) = scenario_accepted"
    using tb [THEN conjunct2, THEN conjunct1, rule_format, OF ne doc_two_segments, THEN conjunct1]
    by simp
  have g: "fst (handleRequestRide_plain accepts_none True (Some ''rider1'') (Some profileA) 9
             scenario_accepted) = scenario_accepted"
    using tr [THEN conjunct2, THEN conjunct2, THEN conjunct1, rule_format, OF doc_rider1 nn,
              THEN conjunct2]
    by simp
  from a b c d e f g show ?thesis by (intro conjI)
qed

text \<open>
  Claim C4 as stated fails. For the rider id a/b both handlers write nothing and show
  the failure.
\<close>

theorem request_fails_at_two_segments:
  "handleRequestRide render_none accepts_all True (Some ''a/b'') (Some profileA)
     (Some (Position 40 (- 73))) 1 DAList.empty =
     (DAList.empty,
      [notify ''Getting your location...'' ''info'',
       notify ''Requesting ride...'' ''info'',
       notify ''Failed to request ride: Your path does not contain an even number of components.''
         ''error''])
   \<and> handleRequestRide_plain accepts_all True (Some ''a/b'') (Some profileA) 1 DAList.empty =
     (DAList.empty,
      [''Requesting ride...'',
       ''Failed to request ride: Your path does not contain an even number of components.''])"
proof -
  have ne: "''a/b'' \<noteq> []" by simp
  from handleRequestRide_no_ref [OF ne doc_two_segments] show ?thesis
    by simp
qed

text \<open>
  Claim C10. When the browser has no geolocation, or the position callback reports an
  error (whatever its code), the handler of src/_app.js returns the store it was given:
  no write happens. The last notification it sets has severity error; for a signed-in
  user the notifications are "Getting your location..." (info) followed by the error.
\<close>

theorem no_write_on_geolocation_failure:
  "fst (handleRequestRide numstr accepts db userId prof None now s) = s
   \<and> fst (handleRequestRide numstr accepts db userId prof (Some (PositionError c)) now s) = s
   \<and> snackbarSeverity (last (snd (handleRequestRide numstr accepts db userId prof None now s)))
       = ''error''
   \<and> snackbarSeverity
       (last (snd (handleRequestRide numstr accepts db userId prof (Some (PositionError c)) now
                     s)))
       = ''error''
   \<and> handleRequestRide numstr accepts True (Some (u # us)) prof None now s =
     (s, [notify ''Getting your location...'' ''info'',
          notify ''Geolocation is not supported by your browser.'' ''error''])
   \<and> handleRequestRide numstr accepts True (Some (u # us)) prof (Some (PositionError c)) now s =
     (s, [notify ''Getting your location...'' ''info'',
          notify (''Geolocation error: '' @ geo_errorMessage c) ''error''])"
  by (simp add: handleRequestRide_def notify_def split: option.splits)

text \<open>
  rider1 on top of the accepted ride of the scenario: no geolocation, permission denied
  (code 1) and timeout (code 3).
\<close>

theorem no_write_on_geolocation_failure_witness:
  "handleRequestRide render_none accepts_all True (Some ''rider1'') None None 9
     scenario_accepted =
     (scenario_accepted,
      [notify ''Getting your location...'' ''info'',
       notify ''Geolocation is not supported by your browser.'' ''error''])
   \<and> handleRequestRide render_none accepts_all True (Some ''rider1'') None
       (Some (PositionError 1)) 9 scenario_accepted =
     (scenario_accepted,
      [notify ''Getting your location...'' ''info'',
       notify ''Geolocation error: Location access denied. Please enable location services for this app.''
         ''error''])
   \<and> handleRequestRide render_none accepts_all True (Some ''rider1'') None
       (Some (PositionError 3)) 9 scenario_accepted =
     (scenario_accepted,
      [notify ''Getting your location...'' ''info'',
       notify ''Geolocation error: The request to get user location timed out.'' ''error''])"
proof -
  have e1: "''Geolocation error: '' @ geo_errorMessage 1 =
      ''Geolocation error: Location access denied. Please enable location services for this app.''"
    by (simp add: geo_errorMessage_def PERMISSION_DENIED_def)
  have e3: "''Geolocation error: '' @ geo_errorMessage 3 =
      ''Geolocation error: The request to get user location timed out.''"
    by (simp add: geo_errorMessage_def PERMISSION_DENIED_def POSITION_UNAVAILABLE_def TIMEOUT_def)
  note t1 = no_write_on_geolocation_failure
    [where numstr = render_none and accepts = accepts_all and u = "CHR ''r''"
       and us = "''ider1''" and prof = None and now = 9 and s = scenario_accepted and c = 1]
  note t3 = no_write_on_geolocation_failure
    [where numstr = render_none and accepts = accepts_all and u = "CHR ''r''"
       and us = "''ider1''" and prof = None and now = 9 and s = scenario_accepted and c = 3]
  note a = t1 [THEN conjunct2, THEN conjunct2, THEN conjunct2, THEN conjunct2, THEN conjunct1]
  note b1 = t1 [THEN conjunct2, THEN conjunct2, THEN conjunct2, THEN conjunct2, THEN conjunct2]
  note b3 = t3 [THEN conjunct2, THEN conjunct2, THEN conjunct2, THEN conjunct2, THEN conjunct2]
  from a b1 b3 show ?thesis
    by (simp only: e1 e3 simp_thms)
qed

end
